theory Spec2Isabelle
  imports Main "HOL-Library.Sublist"
begin

section \<open>The Aho-Corasick automaton of \<^verbatim>\<open>aho-corasick.py\<close>\<close>

text \<open>
  The class \<^verbatim>\<open>AhoCorasick\<close> keeps four tables: the pattern list, the children
  dictionary of every node, the failure link of every node and the output list of every
  node. Nodes are list indices, node 0 is the root. A Python dictionary iterates in
  insertion order and the breadth-first loop iterates over dictionaries, so a dictionary
  is an association list in insertion order. The automaton only ever compares symbols
  for equality, so the symbol type is a type variable (a Python \<^verbatim>\<open>str\<close> is a
  sequence of code points); the value of \<^verbatim>\<open>string.printable\<close> is the parameter
  \<open>alphabet\<close> of the construction, and \<open>printable\<close> below is that value on
  Isabelle's characters.
\<close>

datatype error = IndexError | KeyError

record 'a AhoCorasick =
  patterns :: "'a list list"
  trie :: "('a \<times> nat) list list"
  fail :: "nat list"
  "output" :: "nat list list"

subsection \<open>Lists and dictionaries as Python reads them\<close>

text \<open>\<^verbatim>\<open>xs[i]\<close> for a non-negative index: IndexError out of range.\<close>

definition get :: "'b list \<Rightarrow> nat \<Rightarrow> error + 'b" where
  "get xs i = (if i < length xs then Inr (xs ! i) else Inl IndexError)"

text \<open>\<^verbatim>\<open>k in d\<close>, \<^verbatim>\<open>d[k]\<close>, \<^verbatim>\<open>d.get(k, default)\<close> and \<^verbatim>\<open>d[k] = v\<close>
  (a new key goes to the end of the iteration order, an old key keeps its place).\<close>

definition dict_contains :: "('k \<times> 'v) list \<Rightarrow> 'k \<Rightarrow> bool" where
  "dict_contains d k = (map_of d k \<noteq> None)"

definition dict_getitem :: "('k \<times> 'v) list \<Rightarrow> 'k \<Rightarrow> error + 'v" where
  "dict_getitem d k = (case map_of d k of None \<Rightarrow> Inl KeyError | Some v \<Rightarrow> Inr v)"

definition dict_get :: "('k \<times> 'v) list \<Rightarrow> 'k \<Rightarrow> 'v \<Rightarrow> 'v" where
  "dict_get d k dflt = (case map_of d k of None \<Rightarrow> dflt | Some v \<Rightarrow> v)"

definition dict_set :: "('k \<times> 'v) list \<Rightarrow> 'k \<Rightarrow> 'v \<Rightarrow> ('k \<times> 'v) list" where
  "dict_set d k v =
     (if dict_contains d k then map (\<lambda>(k', v'). if k' = k then (k', v) else (k', v')) d
      else d @ [(k, v)])"

subsection \<open>\<^verbatim>\<open>build_trie\<close>\<close>

text \<open>One round of \<^verbatim>\<open>for character in pattern\<close>: a missing child is created as the
  next free node, then the walk moves to the child.\<close>

definition add_char :: "'a AhoCorasick \<Rightarrow> nat \<Rightarrow> 'a \<Rightarrow> error + ('a AhoCorasick \<times> nat)" where
  "add_char A node character =
     (case get (trie A) node of
        Inl e \<Rightarrow> Inl e
      | Inr kids \<Rightarrow>
          let A' = (if \<not> dict_contains kids character
                    then A\<lparr>trie := (trie A)[node := dict_set kids character (length (trie A))] @ [[]],
                           fail := fail A @ [0],
                           output := output A @ [[]]\<rparr>
                    else A)
          in (case get (trie A') node of
                Inl e \<Rightarrow> Inl e
              | Inr kids' \<Rightarrow>
                  (case dict_getitem kids' character of
                     Inl e \<Rightarrow> Inl e
                   | Inr child \<Rightarrow> Inr (A', child))))"

fun insert_chars :: "'a AhoCorasick \<Rightarrow> nat \<Rightarrow> 'a list \<Rightarrow> error + ('a AhoCorasick \<times> nat)" where
  "insert_chars A node [] = Inr (A, node)"
| "insert_chars A node (character # rest) =
     (case add_char A node character of
        Inl e \<Rightarrow> Inl e
      | Inr (A', node') \<Rightarrow> insert_chars A' node' rest)"

text \<open>\<^verbatim>\<open>for pattern_index, pattern in enumerate(self.patterns)\<close>: walk from the root,
  then append the index to the output list of the node reached.\<close>

fun insert_patterns :: "'a AhoCorasick \<Rightarrow> nat \<Rightarrow> 'a list list \<Rightarrow> error + 'a AhoCorasick" where
  "insert_patterns A pattern_index [] = Inr A"
| "insert_patterns A pattern_index (pattern # rest) =
     (case insert_chars A 0 pattern of
        Inl e \<Rightarrow> Inl e
      | Inr (A', node) \<Rightarrow>
          (case get (output A') node of
             Inl e \<Rightarrow> Inl e
           | Inr out \<Rightarrow>
               insert_patterns (A'\<lparr>output := (output A')[node := out @ [pattern_index]]\<rparr>)
                 (Suc pattern_index) rest))"

definition build_trie :: "'a AhoCorasick \<Rightarrow> error + 'a AhoCorasick" where
  "build_trie A = insert_patterns (A\<lparr>output := map (\<lambda>_. []) (trie A)\<rparr>) 0 (patterns A)"

subsection \<open>\<^verbatim>\<open>build_fail_links\<close>\<close>

text \<open>The first loop: every child of the root fails to the root and is enqueued.\<close>

fun seed_queue ::
  "'a AhoCorasick \<Rightarrow> nat list \<Rightarrow> ('a \<times> nat) list \<Rightarrow> error + ('a AhoCorasick \<times> nat list)" where
  "seed_queue A queue [] = Inr (A, queue)"
| "seed_queue A queue ((character, child) # rest) =
     (if child < length (fail A)
      then seed_queue (A\<lparr>fail := (fail A)[child := 0]\<rparr>) (queue @ [child]) rest
      else Inl IndexError)"

text \<open>The second loop: every character of the alphabet that the root has no entry for
  gets an entry that leads to the root.\<close>

fun wire_root :: "'a AhoCorasick \<Rightarrow> 'a list \<Rightarrow> error + 'a AhoCorasick" where
  "wire_root A [] = Inr A"
| "wire_root A (character # rest) =
     (case get (trie A) 0 of
        Inl e \<Rightarrow> Inl e
      | Inr kids \<Rightarrow>
          if \<not> dict_contains kids character
          then wire_root (A\<lparr>trie := (trie A)[0 := dict_set kids character 0]\<rparr>) rest
          else wire_root A rest)"

text \<open>
  \<^verbatim>\<open>while s != 0 and character not in self.trie[s]: s = self.fail[s]\<close>,
  the loop of lines 60-61 and again of lines 81-82. Nothing in its text bounds the
  number of rounds, so not returning is the value \<open>None\<close>.
\<close>

partial_function (option) fail_walk :: "'a AhoCorasick \<Rightarrow> 'a \<Rightarrow> nat \<Rightarrow> (error + nat) option" where
  "fail_walk A character s =
     (if s \<noteq> 0
      then (case get (trie A) s of
              Inl e \<Rightarrow> Some (Inl e)
            | Inr kids \<Rightarrow>
                if \<not> dict_contains kids character
                then (case get (fail A) s of
                        Inl e \<Rightarrow> Some (Inl e)
                      | Inr s' \<Rightarrow> fail_walk A character s')
                else Some (Inr s))
      else Some (Inr s))"

declare fail_walk.simps [code]

text \<open>\<^verbatim>\<open>self.trie[s].get(character, 0)\<close>\<close>

definition goto :: "'a AhoCorasick \<Rightarrow> 'a \<Rightarrow> nat \<Rightarrow> error + nat" where
  "goto A character s =
     (case get (trie A) s of Inl e \<Rightarrow> Inl e | Inr kids \<Rightarrow> Inr (dict_get kids character 0))"

text \<open>The body of the breadth-first loop, once for every entry of the snapshot
  \<^verbatim>\<open>list(self.trie[current].items())\<close>: enqueue the child, find its failure state,
  store it, and extend the child's output list by the failure state's.\<close>

fun link_children ::
  "'a AhoCorasick \<Rightarrow> nat list \<Rightarrow> nat \<Rightarrow> ('a \<times> nat) list
     \<Rightarrow> (error + ('a AhoCorasick \<times> nat list)) option" where
  "link_children A queue current [] = Some (Inr (A, queue))"
| "link_children A queue current ((character, child) # rest) =
     (case get (fail A) current of
        Inl e \<Rightarrow> Some (Inl e)
      | Inr s0 \<Rightarrow>
          (case fail_walk A character s0 of
             None \<Rightarrow> None
           | Some (Inl e) \<Rightarrow> Some (Inl e)
           | Some (Inr s1) \<Rightarrow>
               (case goto A character s1 of
                  Inl e \<Rightarrow> Some (Inl e)
                | Inr fail_state \<Rightarrow>
                    if child < length (fail A)
                    then (let A1 = A\<lparr>fail := (fail A)[child := fail_state]\<rparr> in
                          (case get (output A1) child of
                             Inl e \<Rightarrow> Some (Inl e)
                           | Inr own \<Rightarrow>
                               (case get (output A1) fail_state of
                                  Inl e \<Rightarrow> Some (Inl e)
                                | Inr inherited \<Rightarrow>
                                    link_children
                                      (A1\<lparr>output := (output A1)[child := own @ inherited]\<rparr>)
                                      (queue @ [child]) current rest)))
                    else Some (Inl IndexError))))"

text \<open>\<^verbatim>\<open>while queue: current = queue.popleft(); ...\<close>\<close>

partial_function (option) bfs :: "'a AhoCorasick \<Rightarrow> nat list \<Rightarrow> (error + 'a AhoCorasick) option" where
  "bfs A queue =
     (case queue of
        [] \<Rightarrow> Some (Inr A)
      | current # rest \<Rightarrow>
          (case get (trie A) current of
             Inl e \<Rightarrow> Some (Inl e)
           | Inr kids \<Rightarrow>
               (case link_children A rest current kids of
                  None \<Rightarrow> None
                | Some (Inl e) \<Rightarrow> Some (Inl e)
                | Some (Inr (A', queue')) \<Rightarrow> bfs A' queue')))"

declare bfs.simps [code]

definition build_fail_links :: "'a list \<Rightarrow> 'a AhoCorasick \<Rightarrow> (error + 'a AhoCorasick) option" where
  "build_fail_links alphabet A =
     (case get (trie A) 0 of
        Inl e \<Rightarrow> Some (Inl e)
      | Inr kids \<Rightarrow>
          (case seed_queue A [] kids of
             Inl e \<Rightarrow> Some (Inl e)
           | Inr (A1, queue) \<Rightarrow>
               (case wire_root A1 alphabet of
                  Inl e \<Rightarrow> Some (Inl e)
                | Inr A2 \<Rightarrow> bfs A2 queue)))"

subsection \<open>The constructor\<close>

text \<open>\<^verbatim>\<open>__init__\<close>: one empty dictionary for the root, its failure link 0; the output
  table is only declared there, and \<^verbatim>\<open>build_trie\<close> assigns it before any read.\<close>

definition init :: "'a list \<Rightarrow> 'a list list \<Rightarrow> (error + 'a AhoCorasick) option" where
  "init alphabet pats =
     (case build_trie \<lparr>patterns = pats, trie = [[]], fail = [0], output = []\<rparr> of
        Inl e \<Rightarrow> Some (Inl e)
      | Inr A \<Rightarrow> build_fail_links alphabet A)"

text \<open>\<^verbatim>\<open>string.printable\<close>: digits, lower and upper case letters, punctuation,
  whitespace.\<close>

definition printable :: string where
  "printable =
     ''0123456789abcdefghijklmnopqrstuvwxyzABCDEFGHIJKLMNOPQRSTUVWXYZ'' @
     [CHR 0x21, CHR 0x22, CHR 0x23, CHR 0x24, CHR 0x25, CHR 0x26, CHR 0x27, CHR 0x28,
      CHR 0x29, CHR 0x2A, CHR 0x2B, CHR 0x2C, CHR 0x2D, CHR 0x2E, CHR 0x2F,
      CHR 0x3A, CHR 0x3B, CHR 0x3C, CHR 0x3D, CHR 0x3E, CHR 0x3F, CHR 0x40,
      CHR 0x5B, CHR 0x5C, CHR 0x5D, CHR 0x5E, CHR 0x5F, CHR 0x60,
      CHR 0x7B, CHR 0x7C, CHR 0x7D, CHR 0x7E,
      CHR 0x20, CHR 0x09, CHR 0x0A, CHR 0x0D, CHR 0x0B, CHR 0x0C]"

definition AhoCorasick :: "string list \<Rightarrow> (error + char AhoCorasick) option" where
  "AhoCorasick pats = init printable pats"

subsection \<open>\<^verbatim>\<open>search\<close>\<close>

text \<open>\<^verbatim>\<open>for pattern_index in self.output[node]\<close>: the start offset is a Python
  integer, so it is an \<open>int\<close> here and nothing is cut off at zero.\<close>

fun emit ::
  "'a AhoCorasick \<Rightarrow> nat \<Rightarrow> (int \<times> nat) list \<Rightarrow> nat list \<Rightarrow> error + (int \<times> nat) list" where
  "emit A position matches [] = Inr matches"
| "emit A position matches (pattern_index # rest) =
     (case get (patterns A) pattern_index of
        Inl e \<Rightarrow> Inl e
      | Inr pattern \<Rightarrow>
          emit A position
            (matches @ [(int position - int (length pattern) + 1, pattern_index)]) rest)"

text \<open>\<^verbatim>\<open>for position, character in enumerate(text)\<close>\<close>

fun search_loop ::
  "'a AhoCorasick \<Rightarrow> nat \<Rightarrow> nat \<Rightarrow> (int \<times> nat) list \<Rightarrow> 'a list
     \<Rightarrow> (error + (int \<times> nat) list) option" where
  "search_loop A node position matches [] = Some (Inr matches)"
| "search_loop A node position matches (character # rest) =
     (case fail_walk A character node of
        None \<Rightarrow> None
      | Some (Inl e) \<Rightarrow> Some (Inl e)
      | Some (Inr s) \<Rightarrow>
          (case goto A character s of
             Inl e \<Rightarrow> Some (Inl e)
           | Inr node' \<Rightarrow>
               (case get (output A) node' of
                  Inl e \<Rightarrow> Some (Inl e)
                | Inr outs \<Rightarrow>
                    (case emit A position matches outs of
                       Inl e \<Rightarrow> Some (Inl e)
                     | Inr matches' \<Rightarrow> search_loop A node' (Suc position) matches' rest))))"

definition search :: "'a AhoCorasick \<Rightarrow> 'a list \<Rightarrow> (error + (int \<times> nat) list) option" where
  "search A text = search_loop A 0 0 [] text"

subsection \<open>The demonstration under \<^verbatim>\<open>__main__\<close>\<close>

text \<open>Lines 93-96: the four patterns, the automaton built from them, the text and the
  result of the search.\<close>

definition main_results :: "(error + (int \<times> nat) list) option" where
  "main_results =
     (case AhoCorasick [''he'', ''she'', ''his'', ''hers''] of
        None \<Rightarrow> None
      | Some (Inl e) \<Rightarrow> Some (Inl e)
      | Some (Inr ac) \<Rightarrow> search ac ''ushers'')"

section \<open>The canonical scenario\<close>

text \<open>
  C3, as the specification words it: on the patterns he, she, his, hers and the text
  ushers the matches are (1, he), (0, she) and (3, hers). The search returns other
  offsets: none of the three claimed pairs is in its result.
\<close>

theorem ushers_claimed_offsets_counterexample:
  "main_results = Some (Inr [(1, 1), (2, 0), (2, 3)]) \<and>
   (1, 0) \<notin> set [(1 :: int, 1), (2, 0), (2, 3 :: nat)] \<and>
   (0, 1) \<notin> set [(1 :: int, 1), (2, 0), (2, 3 :: nat)] \<and>
   (3, 3) \<notin> set [(1 :: int, 1), (2, 0), (2, 3 :: nat)]"
  unfolding main_results_def AhoCorasick_def by code_simp

text \<open>
  C3, amended: the search returns exactly three matches, in this order: she (index 1) at
  offset 1, he (index 0) at offset 2 and hers (index 3) at offset 2; his (index 2) has
  no match.
\<close>

theorem ushers_matches:
  "main_results = Some (Inr [(1, 1), (2, 0), (2, 3)]) \<and>
   [''he'', ''she'', ''his'', ''hers''] ! 1 = ''she'' \<and>
   [''he'', ''she'', ''his'', ''hers''] ! 0 = ''he'' \<and>
   [''he'', ''she'', ''his'', ''hers''] ! 3 = ''hers'' \<and>
   2 \<notin> snd ` set [(1 :: int, 1), (2, 0), (2, 3 :: nat)]"
  unfolding main_results_def AhoCorasick_def by code_simp

end
